theory Spec2Isabelle
  imports Main "HOL-Library.Multiset"
begin

section \<open>The navigation tree of the documentation site\<close>

text \<open>
  The side navigation component keeps its menu in a module constant:
  an array of sections, each with a title and an array of links; a link has a target
  (\<open>href\<close>), a label (\<open>children\<close>, the prop that the link component shows) and
  optionally an array \<open>sub\<close> of links one level below it. A sub-link is an object with
  \<open>href\<close> and \<open>children\<close> only. A link is therefore a sub-link record extended by
  the optional field \<open>sub\<close>; an object literal without the property has \<open>sub = None\<close>
  (reading it gives \<open>undefined\<close>).
\<close>

record nav_sublink =
  href :: string
  children :: string

record nav_link = nav_sublink +
  sub :: "nav_sublink list option"

record nav_section =
  title :: string
  links :: "nav_link list"

definition items :: "nav_section list" where
  "items = [
    \<lparr>title = ''Code'',
     links = [
       \<lparr>href = ''/docs/code/es6'', children = ''ES6 Tips'', sub = Some [
         \<lparr>href = ''/docs/code/es6/array'', children = ''Array''\<rparr>,
         \<lparr>href = ''/docs/code/es6/boolean'', children = ''Boolean''\<rparr>,
         \<lparr>href = ''/docs/code/es6/date'', children = ''Date''\<rparr>,
         \<lparr>href = ''/docs/code/es6/math'', children = ''Math''\<rparr>,
         \<lparr>href = ''/docs/code/es6/number'', children = ''Number''\<rparr>,
         \<lparr>href = ''/docs/code/es6/object'', children = ''Object''\<rparr>,
         \<lparr>href = ''/docs/code/es6/string'', children = ''String''\<rparr>,
         \<lparr>href = ''/docs/code/es6/misc'', children = ''Miscellaneous''\<rparr>]\<rparr>,
       \<lparr>href = ''/docs/code/quality'', children = ''Code Quality'', sub = Some [
         \<lparr>href = ''/docs/code/quality/iterative-code'', children = ''Iterative Code''\<rparr>,
         \<lparr>href = ''/docs/code/quality/variable-naming'', children = ''Variable Naming''\<rparr>]\<rparr>,
       \<lparr>href = ''/docs/code/typescript'', children = ''Typescript'', sub = Some [
         \<lparr>href = ''/docs/code/quality/utility-types'', children = ''Utility Types''\<rparr>,
         \<lparr>href = ''/docs/code/quality/additional-resources'', children = ''Additional Resources''\<rparr>]\<rparr>]\<rparr>,
    \<lparr>title = ''React'',
     links = [
       \<lparr>href = ''/docs/react'', children = ''Introduction'', sub = None\<rparr>,
       \<lparr>href = ''/docs/react/handling-state'', children = ''Handling State'', sub = None\<rparr>]\<rparr>]"

section \<open>Rendered output, errors and the module state\<close>

text \<open>
  The rendered markup is a tree of host elements (\<open>nav\<close>, \<open>div\<close>, \<open>span\<close>,
  \<open>ul\<close>, \<open>li\<close>) with their \<open>key\<close> and \<open>className\<close> attributes where the source
  sets them, text nodes, the link component of the framework with the props spread into
  it (it shows an anchor to \<open>href\<close> labelled \<open>children\<close>), and the scoped style
  element, whose CSS text is a fixed literal. An array among the children of an element
  is laid out in place, and a child that is \<open>undefined\<close> shows nothing.
\<close>

datatype vnode =
    Element string "string option" "string option" "vnode list"
  | TextNode string
  | LinkC nav_link
  | StyleJsx

text \<open>
  Calling a method on \<open>undefined\<close> throws a \<open>TypeError\<close>. A computation runs on the
  current content of the module's \<open>items\<close> array and returns either an error or its
  value with the content afterwards.
\<close>

datatype error = TypeError

type_synonym ('a, 's) js = "'s \<Rightarrow> error + 'a \<times> 's"

text \<open>\<open>xs.map(f)\<close> on an array: the callback runs on each element in order.\<close>

fun array_map :: "('a \<Rightarrow> ('b, 's) js) \<Rightarrow> 'a list \<Rightarrow> ('b list, 's) js" where
  "array_map f [] s = Inr ([], s)"
| "array_map f (x # xs) s =
     (case f x s of
        Inl e \<Rightarrow> Inl e
      | Inr (y, s') \<Rightarrow>
          (case array_map f xs s' of
             Inl e \<Rightarrow> Inl e
           | Inr (ys, s'') \<Rightarrow> Inr (y # ys, s'')))"

text \<open>\<open>v.map(f)\<close> where \<open>v\<close> is an optional property: it throws when \<open>v\<close> is absent.\<close>

definition optional_map :: "('a \<Rightarrow> ('b, 's) js) \<Rightarrow> 'a list option \<Rightarrow> ('b list, 's) js" where
  "optional_map f v s = (case v of None \<Rightarrow> Inl TypeError | Some xs \<Rightarrow> array_map f xs s)"

text \<open>The router object of the framework: the component reads its \<open>pathname\<close> only.\<close>

record router =
  pathname :: string

section \<open>The component\<close>

text \<open>The callback of \<open>link.sub.map\<close>: one list item per sub-link.\<close>

definition render_sublink :: "'r router_scheme \<Rightarrow> nav_sublink \<Rightarrow> (vnode, nav_section list) js" where
  "render_sublink router sublink s =
     (let subActive = (pathname router = href sublink) in
      Inr (Element ''li'' (Some (href sublink)) (Some (if subActive then ''active'' else ''''))
             [LinkC \<lparr>href = href sublink, children = children sublink, sub = None\<rparr>], s))"

text \<open>
  The callback of \<open>item.links.map\<close>: the list item of a link, and under it, guarded by
  \<open>link.sub &&\<close>, a list of its sub-links (between two one-space text nodes).
\<close>

definition render_link :: "'r router_scheme \<Rightarrow> nav_link \<Rightarrow> (vnode, nav_section list) js" where
  "render_link router link s =
     (let active = (pathname router = href link) in
      case (if sub link \<noteq> None
            then (case optional_map (render_sublink router) (sub link) s of
                    Inl e \<Rightarrow> Inl e
                  | Inr (lis, s') \<Rightarrow>
                      Inr ([Element ''ul'' None None ([TextNode '' ''] @ lis @ [TextNode '' ''])], s'))
            else Inr ([], s)) of
        Inl e \<Rightarrow> Inl e
      | Inr (nested, s') \<Rightarrow>
          Inr (Element ''li'' (Some (href link)) (Some (if active then ''active'' else ''''))
                 (LinkC link # nested), s'))"

text \<open>The callback of \<open>items.map\<close>: the group of a section.\<close>

definition render_item :: "'r router_scheme \<Rightarrow> nav_section \<Rightarrow> (vnode, nav_section list) js" where
  "render_item router item s =
     (case array_map (render_link router) (links item) s of
        Inl e \<Rightarrow> Inl e
      | Inr (lis, s') \<Rightarrow>
          Inr (Element ''div'' (Some (title item)) (Some ''sidenav__group'')
                 [Element ''span'' None None [TextNode (title item)],
                  Element ''ul'' None (Some ''flex column'') lis], s'))"

text \<open>
  The component: \<open>items.map\<close> over the module's array, then the style element. The
  router comes from the framework's hook.
\<close>

definition SideNav :: "'r router_scheme \<Rightarrow> (vnode, nav_section list) js" where
  "SideNav router s =
     (case array_map (render_item router) s s of
        Inl e \<Rightarrow> Inl e
      | Inr (groups, s') \<Rightarrow>
          Inr (Element ''nav'' None (Some ''sidenav'') (groups @ [StyleJsx]), s'))"

section \<open>Reading the configuration and the output\<close>

text \<open>A sub-link as the props object that the link component receives.\<close>

definition link_props :: "nav_sublink \<Rightarrow> nav_link" where
  "link_props e = \<lparr>href = href e, children = children e, sub = None\<rparr>"

text \<open>The sub-links of a link; none when the property is absent.\<close>

definition sub_links :: "nav_link \<Rightarrow> nav_sublink list" where
  "sub_links l = (case sub l of None \<Rightarrow> [] | Some es \<Rightarrow> es)"

text \<open>All entries of a configuration in declaration order, each link before its sub-links.\<close>

definition link_entries :: "nav_link \<Rightarrow> nav_link list" where
  "link_entries l = l # map link_props (sub_links l)"

definition nav_entries :: "nav_section list \<Rightarrow> nav_link list" where
  "nav_entries cfg = concat (map (\<lambda>item. concat (map link_entries (links item))) cfg)"

definition nav_hrefs :: "nav_section list \<Rightarrow> string list" where
  "nav_hrefs cfg = map href (nav_entries cfg)"

text \<open>The targets of all link components of a tree, in document order.\<close>

fun anchors :: "vnode \<Rightarrow> string list" where
  "anchors (Element t k c ks) = concat (map anchors ks)"
| "anchors (LinkC l) = [href l]"
| "anchors (TextNode v) = []"
| "anchors StyleJsx = []"

text \<open>The props of the link components that are children of an element.\<close>

fun child_links :: "vnode list \<Rightarrow> nav_link list" where
  "child_links [] = []"
| "child_links (LinkC l # ks) = l # child_links ks"
| "child_links (k # ks) = child_links ks"

text \<open>
  The list items of a tree in document order: for each \<open>li\<close> element the link
  components directly inside it and whether its class is \<open>active\<close>.
\<close>

fun marking :: "vnode \<Rightarrow> (nav_link list \<times> bool) list" where
  "marking (Element t k c ks) =
     (if t = ''li'' then [(child_links ks, c = Some ''active'')] else []) @ concat (map marking ks)"
| "marking (LinkC l) = []"
| "marking (TextNode v) = []"
| "marking StyleJsx = []"

text \<open>
  The nesting of list items: every \<open>li\<close> element with its link components, its mark,
  and the list items below it that are not below another list item inside it.
\<close>

datatype list_item =
  ListItem (item_links: "nav_link list") (item_active: bool) (item_nested: "list_item list")

fun item_forest :: "vnode \<Rightarrow> list_item list" where
  "item_forest (Element t k c ks) =
     (if t = ''li''
      then [ListItem (child_links ks) (c = Some ''active'') (concat (map item_forest ks))]
      else concat (map item_forest ks))"
| "item_forest (LinkC l) = []"
| "item_forest (TextNode v) = []"
| "item_forest StyleJsx = []"

text \<open>The text nodes of a tree, and the texts of its \<open>span\<close> elements, in document order.\<close>

fun texts :: "vnode \<Rightarrow> string list" where
  "texts (Element t k c ks) = concat (map texts ks)"
| "texts (TextNode v) = [v]"
| "texts (LinkC l) = []"
| "texts StyleJsx = []"

fun headings :: "vnode \<Rightarrow> string list" where
  "headings (Element t k c ks) =
     (if t = ''span'' then concat (map texts ks) else concat (map headings ks))"
| "headings (TextNode v) = []"
| "headings (LinkC l) = []"
| "headings StyleJsx = []"

text \<open>The outermost elements of class \<open>sidenav__group\<close>, in document order.\<close>

fun groups :: "vnode \<Rightarrow> vnode list" where
  "groups (Element t k c ks) =
     (if c = Some ''sidenav__group'' then [Element t k c ks] else concat (map groups ks))"
| "groups (TextNode v) = []"
| "groups (LinkC l) = []"
| "groups StyleJsx = []"

text \<open>Taking the class \<open>active\<close> off every list item, leaving everything else.\<close>

fun unmark :: "vnode \<Rightarrow> vnode" where
  "unmark (Element t k c ks) =
     Element t k (if t = ''li'' \<and> c = Some ''active'' then Some '''' else c) (map unmark ks)"
| "unmark (TextNode v) = TextNode v"
| "unmark (LinkC l) = LinkC l"
| "unmark StyleJsx = StyleJsx"

text \<open>
  The list item expected for a link when the current path is \<open>p\<close>: the link, marked iff
  its target is \<open>p\<close>, over one childless list item per sub-link, in the declared order.
\<close>

definition link_tree :: "string \<Rightarrow> nav_link \<Rightarrow> list_item" where
  "link_tree p l =
     ListItem [l] (p = href l)
       (map (\<lambda>e. ListItem [link_props e] (p = href e) []) (sub_links l))"

subsection \<open>The values of the callbacks\<close>

text \<open>
  The element each callback returns, as a function of the current path alone. They are
  used to state what the callbacks compute (the lemmas \<open>render_sublink_view\<close> to
  \<open>SideNav_view\<close> below).
\<close>

definition sublink_view :: "string \<Rightarrow> nav_sublink \<Rightarrow> vnode" where
  "sublink_view p e =
     Element ''li'' (Some (href e)) (Some (if p = href e then ''active'' else ''''))
       [LinkC (link_props e)]"

definition link_view :: "string \<Rightarrow> nav_link \<Rightarrow> vnode" where
  "link_view p l =
     Element ''li'' (Some (href l)) (Some (if p = href l then ''active'' else ''''))
       (LinkC l #
        (case sub l of
           None \<Rightarrow> []
         | Some es \<Rightarrow>
             [Element ''ul'' None None
                ([TextNode '' ''] @ map (sublink_view p) es @ [TextNode '' ''])]))"

definition item_view :: "string \<Rightarrow> nav_section \<Rightarrow> vnode" where
  "item_view p item =
     Element ''div'' (Some (title item)) (Some ''sidenav__group'')
       [Element ''span'' None None [TextNode (title item)],
        Element ''ul'' None (Some ''flex column'') (map (link_view p) (links item))]"

definition nav_view :: "string \<Rightarrow> nav_section list \<Rightarrow> vnode" where
  "nav_view p cfg =
     Element ''nav'' None (Some ''sidenav'') (map (item_view p) cfg @ [StyleJsx])"

section \<open>What the callbacks compute\<close>

text \<open>
  A callback that neither throws nor writes makes \<open>map\<close> return the mapped array and
  leave the state as it was.
\<close>

lemma array_map_pure:
  "(\<And>x s. x \<in> set xs \<Longrightarrow> f x s = Inr (g x, s)) \<Longrightarrow> array_map f xs s = Inr (map g xs, s)"
  by (induction xs) auto

lemma render_sublink_view:
  "render_sublink router e s = Inr (sublink_view (pathname router) e, s)"
  by (simp add: render_sublink_def sublink_view_def link_props_def)

text \<open>The guard \<open>link.sub &&\<close> keeps \<open>map\<close> from being called on an absent array.\<close>

lemma render_link_view:
  "render_link router l s = Inr (link_view (pathname router) l, s)"
proof (cases "sub l")
  case None
  then show ?thesis by (simp add: render_link_def link_view_def)
next
  case (Some es)
  have "optional_map (render_sublink router) (sub l) s
          = Inr (map (sublink_view (pathname router)) es, s)"
    using Some by (simp add: optional_map_def array_map_pure render_sublink_view)
  then show ?thesis using Some by (simp add: render_link_def link_view_def)
qed

lemma render_item_view:
  "render_item router item s = Inr (item_view (pathname router) item, s)"
  by (simp add: render_item_def item_view_def array_map_pure render_link_view)

lemma SideNav_view:
  "SideNav router s = Inr (nav_view (pathname router) s, s)"
  by (simp add: SideNav_def nav_view_def array_map_pure render_item_view)

section \<open>What the output shows\<close>

text \<open>
  The observations of the output, level by level: list items and their nesting, link
  targets, marks, headings and groups.
\<close>

lemma item_forest_sublink:
  "item_forest (sublink_view p e) = [ListItem [link_props e] (p = href e) []]"
  by (simp add: sublink_view_def)

lemma item_forest_link: "item_forest (link_view p l) = [link_tree p l]"
  by (cases "sub l")
    (simp_all add: link_view_def link_tree_def sub_links_def item_forest_sublink comp_def)

lemma item_forest_item: "item_forest (item_view p item) = map (link_tree p) (links item)"
  by (simp add: item_view_def item_forest_link comp_def)

lemma item_forest_nav:
  "item_forest (nav_view p cfg) = concat (map (\<lambda>item. map (link_tree p) (links item)) cfg)"
  by (simp add: nav_view_def item_forest_item comp_def)

lemma anchors_link: "anchors (link_view p l) = map href (link_entries l)"
  by (cases "sub l")
    (simp_all add: link_view_def link_entries_def sub_links_def sublink_view_def
      link_props_def comp_def)

lemma anchors_item:
  "anchors (item_view p item) = map href (concat (map link_entries (links item)))"
  by (simp add: item_view_def anchors_link map_concat comp_def)

lemma anchors_nav: "anchors (nav_view p cfg) = nav_hrefs cfg"
  by (simp add: nav_view_def nav_hrefs_def nav_entries_def anchors_item map_concat comp_def)

lemma marking_link:
  "marking (link_view p l) = map (\<lambda>e. ([e], p = href e)) (link_entries l)"
  by (cases "sub l")
    (simp_all add: link_view_def link_entries_def sub_links_def sublink_view_def
      link_props_def comp_def)

lemma marking_item:
  "marking (item_view p item)
     = map (\<lambda>e. ([e], p = href e)) (concat (map link_entries (links item)))"
  by (simp add: item_view_def marking_link map_concat comp_def)

lemma marking_nav:
  "marking (nav_view p cfg) = map (\<lambda>e. ([e], p = href e)) (nav_entries cfg)"
  by (simp add: nav_view_def nav_entries_def marking_item map_concat comp_def)

lemma unmark_sublink: "unmark (sublink_view p e) = unmark (sublink_view q e)"
  by (simp add: sublink_view_def)

lemma unmark_link: "unmark (link_view p l) = unmark (link_view q l)"
  by (cases "sub l") (simp_all add: link_view_def unmark_sublink)

lemma unmark_item: "unmark (item_view p item) = unmark (item_view q item)"
  by (simp add: item_view_def unmark_link)

lemma unmark_nav: "unmark (nav_view p cfg) = unmark (nav_view q cfg)"
  by (simp add: nav_view_def unmark_item)

lemma groups_nav: "groups (nav_view p cfg) = map (item_view p) cfg"
  by (induction cfg) (simp_all add: nav_view_def item_view_def)

lemma headings_link: "headings (link_view p l) = []"
  by (cases "sub l") (simp_all add: link_view_def sublink_view_def)

lemma headings_item: "headings (item_view p item) = [title item]"
  by (simp add: item_view_def headings_link)

lemma headings_nav: "headings (nav_view p cfg) = map title cfg"
  by (simp add: nav_view_def headings_item comp_def)

lemma filter_same_key:
  "distinct (map f xs) \<Longrightarrow> x \<in> set xs \<Longrightarrow> filter (\<lambda>y. f x = f y) xs = [x]"
proof (induction xs)
  case Nil
  then show ?case by simp
next
  case (Cons a xs)
  show ?case
  proof (cases "a = x")
    case True
    have "\<forall>y\<in>set xs. f x \<noteq> f y" using Cons.prems(1) True by auto
    then have "filter (\<lambda>y. f x = f y) xs = []" by (simp add: filter_empty_conv)
    then show ?thesis using True by simp
  next
    case False
    then have x: "x \<in> set xs" using Cons.prems(2) by simp
    have "f a \<notin> f ` set xs" using Cons.prems(1) by simp
    moreover have "f x \<in> f ` set xs" using x by simp
    ultimately have "f x \<noteq> f a" by auto
    then show ?thesis using Cons x by simp
  qed
qed

lemma items_distinct: "distinct (map href (nav_entries items))"
  by (simp add: nav_entries_def link_entries_def sub_links_def link_props_def
      items_def)

section \<open>The configuration\<close>

text \<open>
  C3: the targets declared in \<open>items\<close> are pairwise distinct over the whole tree, links
  and sub-links of all sections taken together.
\<close>

theorem items_hrefs_distinct: "distinct (nav_hrefs items)"
  by (simp add: nav_hrefs_def nav_entries_def link_entries_def sub_links_def link_props_def
      items_def)

lemma items_entries_count: "length (nav_entries items) = 17"
  by (simp add: nav_entries_def link_entries_def sub_links_def link_props_def items_def)

section \<open>Marking the active entry\<close>

text \<open>
  C1: for every current path, the list items of the output are the entries of \<open>items\<close>
  in order, and a list item has the class \<open>active\<close> iff the target of its entry is
  equal to the path. In particular, when the path is the target of an entry \<open>L\<close> of the
  configuration, the only list item that is marked is the one of \<open>L\<close>.
\<close>

theorem SideNav_active_iff_href:
  "\<exists>out s'. SideNav router items = Inr (out, s') \<and>
     marking out = map (\<lambda>L. ([L], href L = pathname router)) (nav_entries items) \<and>
     (\<forall>L \<in> set (nav_entries items). pathname router = href L \<longrightarrow>
        filter snd (marking out) = [([L], True)])"
proof -
  let ?p = "pathname router"
  let ?out = "nav_view ?p items"
  have m: "marking ?out = map (\<lambda>L. ([L], href L = ?p)) (nav_entries items)"
    by (simp add: marking_nav eq_commute)
  have "filter snd (marking ?out) = [([L], True)]"
    if "L \<in> set (nav_entries items)" and "?p = href L" for L
  proof -
    have "filter snd (marking ?out)
            = map (\<lambda>L. ([L], True)) (filter (\<lambda>y. href L = href y) (nav_entries items))"
      using that(2) by (simp add: marking_nav filter_map comp_def cong: map_cong)
    then show ?thesis using filter_same_key [OF items_distinct that(1)] by simp
  qed
  then show ?thesis using m by (auto simp: SideNav_view)
qed

theorem SideNav_active_iff_href_witness:
  "\<lparr>href = ''/docs/code/es6/math'', children = ''Math'', sub = None\<rparr> \<in> set (nav_entries items) \<and>
   (\<exists>out s'. SideNav \<lparr>pathname = ''/docs/code/es6/math''\<rparr> items = Inr (out, s') \<and>
      filter snd (marking out)
        = [([\<lparr>href = ''/docs/code/es6/math'', children = ''Math'', sub = None\<rparr>], True)])"
proof -
  let ?L = "\<lparr>href = ''/docs/code/es6/math'', children = ''Math'', sub = None\<rparr>"
  have "?L \<in> set (nav_entries items)"
    by (simp add: nav_entries_def link_entries_def sub_links_def link_props_def items_def)
  then show ?thesis
    using SideNav_active_iff_href [of "\<lparr>pathname = ''/docs/code/es6/math''\<rparr>"] by fastforce
qed

text \<open>
  C5: when the path is \<open>/docs/react/handling-state\<close>, the list item of the link
  "Handling State" is marked and the one of "Introduction" (\<open>/docs/react\<close>) is not.
\<close>

theorem SideNav_handling_state_scenario:
  "\<exists>out s'. SideNav \<lparr>pathname = ''/docs/react/handling-state''\<rparr> items = Inr (out, s') \<and>
     ([\<lparr>href = ''/docs/react/handling-state'', children = ''Handling State'', sub = None\<rparr>], True)
        \<in> set (marking out) \<and>
     ([\<lparr>href = ''/docs/react'', children = ''Introduction'', sub = None\<rparr>], False)
        \<in> set (marking out) \<and>
     ([\<lparr>href = ''/docs/react'', children = ''Introduction'', sub = None\<rparr>], True)
        \<notin> set (marking out)"
  by (simp add: SideNav_def render_item_def render_link_def render_sublink_def optional_map_def
      items_def)

section \<open>Structure of the output\<close>

text \<open>
  C2: for every current path and every link \<open>L\<close> of \<open>items\<close> with a \<open>sub\<close> array,
  the list item of \<open>L\<close> has, exactly one level below it, one list item per element of
  the array, in order, none of them with list items of its own; whichever entry is
  marked, none is left out.
\<close>

theorem SideNav_sub_links_nested:
  "\<exists>out s'. SideNav router items = Inr (out, s') \<and>
     (\<forall>item \<in> set items. \<forall>L \<in> set (links item). \<forall>es. sub L = Some es \<longrightarrow>
        (\<exists>a nested. ListItem [L] a nested \<in> set (item_forest out) \<and>
           map item_links nested = map (\<lambda>e. [link_props e]) es \<and>
           list_all (\<lambda>n. item_nested n = []) nested))"
proof -
  let ?p = "pathname router"
  let ?out = "nav_view ?p items"
  have nested: "\<exists>a nested. ListItem [L] a nested \<in> set (item_forest ?out) \<and>
           map item_links nested = map (\<lambda>e. [link_props e]) es \<and>
           list_all (\<lambda>n. item_nested n = []) nested"
    if "item \<in> set items" and "L \<in> set (links item)" and "sub L = Some es" for item L es
  proof (intro exI conjI)
    let ?nested = "map (\<lambda>e. ListItem [link_props e] (?p = href e) []) es"
    have "link_tree ?p L \<in> set (item_forest ?out)"
      using that(1,2) by (auto simp: item_forest_nav)
    moreover have "link_tree ?p L = ListItem [L] (?p = href L) ?nested"
      using that(3) by (simp add: link_tree_def sub_links_def)
    ultimately show "ListItem [L] (?p = href L) ?nested \<in> set (item_forest ?out)"
      by simp
    show "map item_links ?nested = map (\<lambda>e. [link_props e]) es"
      by simp
    show "list_all (\<lambda>n. item_nested n = []) ?nested"
      by (simp add: list_all_iff)
  qed
  have "SideNav router items = Inr (?out, items)"
    by (rule SideNav_view)
  then show ?thesis using nested by blast
qed

theorem SideNav_sub_links_nested_witness:
  "\<exists>out s'. SideNav \<lparr>pathname = ''/docs/react''\<rparr> items = Inr (out, s') \<and>
     (\<exists>a nested.
        ListItem [\<lparr>href = ''/docs/code/quality'', children = ''Code Quality'', sub = Some [
           \<lparr>href = ''/docs/code/quality/iterative-code'', children = ''Iterative Code''\<rparr>,
           \<lparr>href = ''/docs/code/quality/variable-naming'', children = ''Variable Naming''\<rparr>]\<rparr>]
          a nested \<in> set (item_forest out) \<and>
        map item_links nested
          = [[\<lparr>href = ''/docs/code/quality/iterative-code'', children = ''Iterative Code'', sub = None\<rparr>],
             [\<lparr>href = ''/docs/code/quality/variable-naming'', children = ''Variable Naming'', sub = None\<rparr>]] \<and>
        list_all (\<lambda>n. item_nested n = []) nested)"
proof -
  let ?es = "[\<lparr>href = ''/docs/code/quality/iterative-code'', children = ''Iterative Code''\<rparr>,
           \<lparr>href = ''/docs/code/quality/variable-naming'', children = ''Variable Naming''\<rparr>]"
  let ?L = "\<lparr>href = ''/docs/code/quality'', children = ''Code Quality'', sub = Some ?es\<rparr>"
  have "\<exists>item \<in> set items. ?L \<in> set (links item)"
    by (simp add: items_def)
  then obtain item where i: "item \<in> set items" "?L \<in> set (links item)"
    by blast
  have e: "map (\<lambda>e. [link_props e]) ?es
          = [[\<lparr>href = ''/docs/code/quality/iterative-code'', children = ''Iterative Code'', sub = None\<rparr>],
             [\<lparr>href = ''/docs/code/quality/variable-naming'', children = ''Variable Naming'', sub = None\<rparr>]]"
    by (simp add: link_props_def)
  have s: "sub ?L = Some ?es" by simp
  show ?thesis
    using SideNav_sub_links_nested [of "\<lparr>pathname = ''/docs/react''\<rparr>"] i s unfolding e [symmetric]
    by blast
qed

text \<open>
  C7: for every current path, the targets of the link components of the output are, as
  a multiset, the targets declared in \<open>items\<close>.
\<close>

theorem SideNav_anchors_are_hrefs:
  "\<exists>out s'. SideNav router items = Inr (out, s') \<and> mset (anchors out) = mset (nav_hrefs items)"
  by (simp add: SideNav_view anchors_nav)

text \<open>
  C10: the output keeps the declaration order: its groups are the sections of \<open>items\<close>
  in order, each with its title as heading, the list items of a group are the links of
  the section in order, and below each the sub-links in order.
\<close>

theorem SideNav_declaration_order:
  "\<exists>out s'. SideNav router items = Inr (out, s') \<and>
     map (\<lambda>g. (headings g, item_forest g)) (groups out)
       = map (\<lambda>item. ([title item], map (link_tree (pathname router)) (links item))) items"
  by (simp add: SideNav_view groups_nav headings_item item_forest_item comp_def)

text \<open>
  C9: the path bears on the marks only. The outputs for two paths are equal once the
  class \<open>active\<close> is taken off their list items; so their headings, their link targets
  and the links of their list items agree.
\<close>

theorem SideNav_path_only_marks:
  "\<exists>o1 s1 o2 s2. SideNav r1 items = Inr (o1, s1) \<and> SideNav r2 items = Inr (o2, s2) \<and>
     unmark o1 = unmark o2 \<and> headings o1 = headings o2 \<and> anchors o1 = anchors o2 \<and>
     map fst (marking o1) = map fst (marking o2)"
  using unmark_nav [of "pathname r1" items "pathname r2"]
  by (simp add: SideNav_view headings_nav anchors_nav marking_nav comp_def)

section \<open>Errors and effects\<close>

text \<open>
  C4: rendering is a function of the path and the configuration. Two routers with the
  same path, whatever else they hold, give the same output, and so does a second
  rendering that runs after the first.
\<close>

theorem SideNav_deterministic:
  "pathname r1 = pathname r2 \<Longrightarrow>
     \<exists>out s'. SideNav r1 items = Inr (out, s') \<and> SideNav r2 items = Inr (out, s') \<and>
       SideNav r2 s' = Inr (out, s')"
  by (simp add: SideNav_view)

theorem SideNav_deterministic_witness:
  "pathname \<lparr>pathname = ''/docs/react''\<rparr> = pathname \<lparr>pathname = ''/docs/react'', \<dots> = True\<rparr> \<and>
   (\<exists>out s'. SideNav \<lparr>pathname = ''/docs/react''\<rparr> items = Inr (out, s') \<and>
      SideNav \<lparr>pathname = ''/docs/react'', \<dots> = True\<rparr> items = Inr (out, s') \<and>
      SideNav \<lparr>pathname = ''/docs/react'', \<dots> = True\<rparr> s' = Inr (out, s'))"
  using SideNav_deterministic [of "\<lparr>pathname = ''/docs/react''\<rparr>" "\<lparr>pathname = ''/docs/react'', \<dots> = True\<rparr>"]
  by simp

text \<open>
  C6: rendering is total. For every router, hence every path (one that matches no
  target and the empty one too), rendering \<open>items\<close> returns an output; and whatever the
  array holds, the component does not throw.
\<close>

theorem SideNav_never_throws:
  "(\<exists>out s'. SideNav router items = Inr (out, s')) \<and> (\<forall>e. SideNav router cfg \<noteq> Inl e)"
  by (simp add: SideNav_view)

theorem SideNav_never_throws_witness:
  "(\<exists>out s'. SideNav \<lparr>pathname = ''''\<rparr> items = Inr (out, s')) \<and>
   (\<forall>e. SideNav \<lparr>pathname = ''/no/such/page''\<rparr>
          [\<lparr>title = ''T'', links = [\<lparr>href = ''/a'', children = ''A'', sub = None\<rparr>]\<rparr>] \<noteq> Inl e)"
proof -
  have "\<exists>out s'. SideNav \<lparr>pathname = ''''\<rparr> items = Inr (out, s')"
    using SideNav_never_throws [of "\<lparr>pathname = ''''\<rparr>"] by simp
  moreover have "\<forall>e. SideNav \<lparr>pathname = ''/no/such/page''\<rparr>
      [\<lparr>title = ''T'', links = [\<lparr>href = ''/a'', children = ''A'', sub = None\<rparr>]\<rparr>] \<noteq> Inl e"
    using SideNav_never_throws [of "\<lparr>pathname = ''/no/such/page''\<rparr>"] by simp
  ultimately show ?thesis by simp
qed

text \<open>
  C8: rendering leaves the \<open>items\<close> array as it was built: sections, links, labels,
  sub-arrays and their order.
\<close>

theorem SideNav_keeps_items: "\<exists>out. SideNav router items = Inr (out, items)"
  by (simp add: SideNav_view)

end
